theory Spec2Isabelle
  imports Main "HOL-Library.Word"
begin

section \<open>The HDFS storage driver: data model\<close>

text \<open>
  The driver of \<^verbatim>\<open>registry/storage/driver/hdfs/hdfs.go\<close> talks to an external HDFS
  client library. The library is not part of the repository, so every call into it is
  modelled by its outcome, given as an argument of the operation that makes the call, and
  by an entry in the list of effects the operation returns. A theorem that holds for all
  outcomes holds for every behaviour of the library. Logging is left out.
\<close>

type_synonym byte = "8 word"
type_synonym int64 = "64 word"

text \<open>
  Errors. \<^verbatim>\<open>fmt.Errorf(msg)\<close> is \<open>Errorf msg\<close>; the two typed conditions of the
  storage-driver vocabulary carry the fields the code fills in; \<open>ErrShortWrite\<close> is the
  one of package \<^verbatim>\<open>io\<close>; an error coming out of the HDFS client is \<open>ClientError\<close>,
  with the class that \<^verbatim>\<open>os.IsNotExist\<close> and \<^verbatim>\<open>os.IsExist\<close> read off it. The
  driver asks \<^verbatim>\<open>os.IsExist\<close> only to decide whether to log, so the model has no
  use for it.
\<close>

datatype oskind = NotExist | Exist | OtherKind

datatype error =
    Errorf string
  | PathNotFoundError string
  | InvalidOffsetError string int64
  | ErrShortWrite
  | ClientError oskind nat

fun IsNotExist :: "error \<Rightarrow> bool" where
  "IsNotExist (ClientError NotExist _) = True"
| "IsNotExist _ = False"

text \<open>
  Handles of the client library: a client made for a name node, a write handle that was
  opened either by \<^verbatim>\<open>client.Append\<close> or by \<^verbatim>\<open>client.Create\<close>, a read handle.
\<close>

datatype hdfsClient = Client string

datatype hdfsFileWriter =
    AppendHandle hdfsClient string
  | CreateHandle hdfsClient string

datatype hdfsFileReader = ReadHandle hdfsClient string

record osFileInfo =
  info_Size :: int64
  info_IsDir :: bool
  info_ModTime :: int

text \<open>
  Effects, in the order the code performs them: the calls into the client library and the
  assignments to the flags and the counter of a \<open>fileWriter\<close>.
\<close>

datatype effect =
    Hdfs_New string
  | Client_MkdirAll hdfsClient string nat
  | Client_Stat hdfsClient string
  | Client_Remove hdfsClient string
  | Client_Append hdfsClient string
  | Client_Create hdfsClient string
  | Client_Open hdfsClient string
  | Reader_Seek hdfsFileReader int64
  | Reader_Close hdfsFileReader
  | File_Write hdfsFileWriter "byte list"
  | File_Flush hdfsFileWriter
  | File_Close hdfsFileWriter
  | Set_size int64
  | Set_closed
  | Set_committed
  | Set_cancelled

record fileWriter =
  client :: hdfsClient
  file_w :: hdfsFileWriter
  path :: string
  size64 :: int64
  closed :: bool
  committed :: bool
  cancelled :: bool

section \<open>The write transaction\<close>

text \<open>
  \<^verbatim>\<open>fileWriter.Write\<close>: the argument \<open>res\<close> is what \<^verbatim>\<open>fw.file.Write(p)\<close> returns, the
  count as the value of a Go \<^verbatim>\<open>int\<close>; \<^verbatim>\<open>int64(n)\<close> is \<open>word_of_int n\<close> and the
  addition wraps as Go's does.
\<close>

definition Write ::
  "fileWriter \<Rightarrow> byte list \<Rightarrow> int \<times> error option \<Rightarrow>
   fileWriter \<times> (int \<times> error option) \<times> effect list" where
  "Write fw p res =
     (if closed fw then (fw, (0, Some (Errorf ''already closed'')), [])
      else if committed fw then (fw, (0, Some (Errorf ''already committed'')), [])
      else if cancelled fw then (fw, (0, Some (Errorf ''already cancelled'')), [])
      else
        (let n = fst res; err = snd res;
             size' = size64 fw + word_of_int n
         in (fw\<lparr>size64 := size'\<rparr>, (n, err),
             [File_Write (file_w fw) p, Set_size size'])))"

definition Size :: "fileWriter \<Rightarrow> int64" where
  "Size fw = size64 fw"

text \<open>
  \<^verbatim>\<open>fileWriter.Close\<close>: \<open>flushRes\<close> and \<open>closeRes\<close> are what \<^verbatim>\<open>fw.file.Flush()\<close> and
  \<^verbatim>\<open>fw.file.Close()\<close> return.
\<close>

definition Close ::
  "fileWriter \<Rightarrow> error option \<Rightarrow> error option \<Rightarrow>
   fileWriter \<times> error option \<times> effect list" where
  "Close fw flushRes closeRes =
     (if closed fw then (fw, Some (Errorf ''already closed''), [])
      else
        (case flushRes of
           Some err \<Rightarrow> (fw, Some err, [File_Flush (file_w fw)])
         | None \<Rightarrow>
             (case closeRes of
                Some err \<Rightarrow> (fw, Some err, [File_Flush (file_w fw), File_Close (file_w fw)])
              | None \<Rightarrow>
                  (fw\<lparr>closed := True\<rparr>, None,
                   [File_Flush (file_w fw), File_Close (file_w fw), Set_closed]))))"

text \<open>
  \<^verbatim>\<open>fileWriter.Cancel\<close>: \<open>closeRes\<close> is what \<^verbatim>\<open>fw.file.Close()\<close> returns (the code
  drops it), \<open>removeRes\<close> what \<^verbatim>\<open>fw.client.Remove(fw.path)\<close> returns.
\<close>

definition Cancel ::
  "fileWriter \<Rightarrow> error option \<Rightarrow> error option \<Rightarrow>
   fileWriter \<times> error option \<times> effect list" where
  "Cancel fw closeRes removeRes =
     (if closed fw then (fw, Some (Errorf ''already closed''), [])
      else
        (fw\<lparr>cancelled := True\<rparr>, removeRes,
         [Set_cancelled, File_Close (file_w fw), Client_Remove (client fw) (path fw)]))"

text \<open>\<^verbatim>\<open>fileWriter.Commit\<close>: \<open>flushRes\<close> is what \<^verbatim>\<open>fw.file.Flush()\<close> returns.\<close>

definition Commit ::
  "fileWriter \<Rightarrow> error option \<Rightarrow> fileWriter \<times> error option \<times> effect list" where
  "Commit fw flushRes =
     (if closed fw then (fw, Some (Errorf ''already closed''), [])
      else if committed fw then (fw, Some (Errorf ''already committed''), [])
      else if cancelled fw then (fw, Some (Errorf ''already cancelled''), [])
      else
        (case flushRes of
           Some err \<Rightarrow> (fw, Some err, [File_Flush (file_w fw)])
         | None \<Rightarrow> (fw\<lparr>committed := True\<rparr>, None, [File_Flush (file_w fw), Set_committed])))"

text \<open>
  The states of the specification, read off the three flags: a transaction is open while
  no flag is set.
\<close>

definition is_Open :: "fileWriter \<Rightarrow> bool" where
  "is_Open fw = (\<not> closed fw \<and> \<not> committed fw \<and> \<not> cancelled fw)"

text \<open>
  A sequence of operations on one transaction, each with the outcomes of the transport
  calls it may make.
\<close>

datatype op =
    Op_Write "byte list" "int \<times> error option"
  | Op_Close "error option" "error option"
  | Op_Cancel "error option" "error option"
  | Op_Commit "error option"

fun apply_op :: "fileWriter \<Rightarrow> op \<Rightarrow> fileWriter" where
  "apply_op fw (Op_Write p res) = fst (Write fw p res)"
| "apply_op fw (Op_Close flushRes closeRes) = fst (Close fw flushRes closeRes)"
| "apply_op fw (Op_Cancel closeRes removeRes) = fst (Cancel fw closeRes removeRes)"
| "apply_op fw (Op_Commit flushRes) = fst (Commit fw flushRes)"

definition run_ops :: "fileWriter \<Rightarrow> op list \<Rightarrow> fileWriter" where
  "run_ops fw ops = foldl apply_op fw ops"

section \<open>The driver\<close>

record DriverConfig =
  nameNode :: string
  rootPath :: string
  maxClients :: "64 word"

record driver =
  config :: DriverConfig

text \<open>
  \<^verbatim>\<open>path.Join\<close> and \<^verbatim>\<open>path.Dir\<close> belong to Go's standard library; the driver only
  passes their results on, so they are parameters of the model.
\<close>

record pathpkg =
  path_Join :: "string \<Rightarrow> string \<Rightarrow> string"
  path_Dir :: "string \<Rightarrow> string"

definition fullPath :: "pathpkg \<Rightarrow> driver \<Rightarrow> string \<Rightarrow> string" where
  "fullPath P d subPath = path_Join P (rootPath (config d)) subPath"

definition newWriter ::
  "hdfsClient \<Rightarrow> string \<Rightarrow> hdfsFileWriter \<Rightarrow> int64 \<Rightarrow> fileWriter" where
  "newWriter c fp hdfsFileWriter offset =
     \<lparr>client = c, file_w = hdfsFileWriter, path = fp, size64 = offset,
      closed = False, committed = False, cancelled = False\<rparr>"

text \<open>\<^verbatim>\<open>newHdfsClient\<close>: \<open>res\<close> is the error of \<^verbatim>\<open>hdfs.New(nameNode)\<close>, if any.\<close>

definition newHdfsClient ::
  "string \<Rightarrow> error option \<Rightarrow> (error + hdfsClient) \<times> effect list" where
  "newHdfsClient nn res =
     (case res of
        Some err \<Rightarrow> (Inl err, [Hdfs_New nn])
      | None \<Rightarrow> (Inr (Client nn), [Hdfs_New nn]))"

subsection \<open>Writer\<close>

text \<open>The outcomes of the client calls \<^verbatim>\<open>driver.Writer\<close> may make.\<close>

record writer_results =
  res_New :: "error option"
  res_MkdirAll :: "error option"
  res_Stat :: "error + osFileInfo"
  res_Remove :: "error option"
  res_Append :: "error option"
  res_Create :: "error option"

text \<open>
  The block of \<^verbatim>\<open>driver.Writer\<close> around \<^verbatim>\<open>client.Stat\<close>: it returns early with
  an error (\<open>Inl\<close>) or leaves a value in the local variable \<^verbatim>\<open>size\<close> (\<open>Inr\<close>), which
  starts as zero.
\<close>

definition Writer_stat ::
  "hdfsClient \<Rightarrow> string \<Rightarrow> bool \<Rightarrow> writer_results \<Rightarrow> (error + int64) \<times> effect list" where
  "Writer_stat c fp app r =
     (case res_Stat r of
        Inl err \<Rightarrow>
          (if \<not> IsNotExist err then (Inl err, [Client_Stat c fp])
           else (Inr 0, [Client_Stat c fp]))
      | Inr fileInfo \<Rightarrow>
          (if app then (Inr (info_Size fileInfo), [Client_Stat c fp])
           else
             (case res_Remove r of
                Some err \<Rightarrow> (Inl err, [Client_Stat c fp, Client_Remove c fp])
              | None \<Rightarrow> (Inr 0, [Client_Stat c fp, Client_Remove c fp]))))"

text \<open>
  The block that opens the handle: \<^verbatim>\<open>client.Append\<close> keeps \<^verbatim>\<open>size\<close>,
  \<^verbatim>\<open>client.Create\<close> sets it to zero.
\<close>

definition Writer_open ::
  "hdfsClient \<Rightarrow> string \<Rightarrow> bool \<Rightarrow> int64 \<Rightarrow> writer_results \<Rightarrow>
   (error + fileWriter) \<times> effect list" where
  "Writer_open c fp app sz r =
     (if app then
        (case res_Append r of
           Some err \<Rightarrow> (Inl err, [Client_Append c fp])
         | None \<Rightarrow> (Inr (newWriter c fp (AppendHandle c fp) sz), [Client_Append c fp]))
      else
        (case res_Create r of
           Some err \<Rightarrow> (Inl err, [Client_Create c fp])
         | None \<Rightarrow> (Inr (newWriter c fp (CreateHandle c fp) 0), [Client_Create c fp])))"

text \<open>\<^verbatim>\<open>driver.Writer\<close>; the permission \<^verbatim>\<open>0777\<close> is 511.\<close>

definition Writer ::
  "pathpkg \<Rightarrow> driver \<Rightarrow> string \<Rightarrow> bool \<Rightarrow> writer_results \<Rightarrow>
   (error + fileWriter) \<times> effect list" where
  "Writer P d subPath app r =
     (let fp = fullPath P d subPath;
          parentDir = path_Dir P fp
      in case newHdfsClient (nameNode (config d)) (res_New r) of
           (Inl err, es0) \<Rightarrow> (Inl err, es0)
         | (Inr c, es0) \<Rightarrow>
             (case res_MkdirAll r of
                Some err \<Rightarrow> (Inl err, es0 @ [Client_MkdirAll c parentDir 511])
              | None \<Rightarrow>
                  (case Writer_stat c fp app r of
                     (Inl err, es1) \<Rightarrow>
                       (Inl err, es0 @ [Client_MkdirAll c parentDir 511] @ es1)
                   | (Inr sz, es1) \<Rightarrow>
                       (case Writer_open c fp app sz r of
                          (res, es2) \<Rightarrow>
                            (res, es0 @ [Client_MkdirAll c parentDir 511] @ es1 @ es2)))))"

subsection \<open>Reader\<close>

text \<open>
  The outcomes of the client calls \<^verbatim>\<open>driver.Reader\<close> may make: \<open>rd_Seek\<close> is the pair
  that \<^verbatim>\<open>file.Seek(offset, io.SeekStart)\<close> returns.
\<close>

record reader_results =
  rd_New :: "error option"
  rd_Open :: "error option"
  rd_Seek :: "int64 \<times> error option"

definition Reader ::
  "pathpkg \<Rightarrow> driver \<Rightarrow> string \<Rightarrow> int64 \<Rightarrow> reader_results \<Rightarrow>
   (error + hdfsFileReader) \<times> effect list" where
  "Reader P d subPath offset r =
     (case newHdfsClient (nameNode (config d)) (rd_New r) of
        (Inl err, es0) \<Rightarrow> (Inl err, es0)
      | (Inr c, es0) \<Rightarrow>
          (let fp = fullPath P d subPath in
           case rd_Open r of
             Some err \<Rightarrow>
               (if IsNotExist err then (Inl (PathNotFoundError fp), es0 @ [Client_Open c fp])
                else (Inl err, es0 @ [Client_Open c fp]))
           | None \<Rightarrow>
               (let f = ReadHandle c fp; seekPos = fst (rd_Seek r) in
                case snd (rd_Seek r) of
                  Some err \<Rightarrow>
                    (Inl err, es0 @ [Client_Open c fp, Reader_Seek f offset, Reader_Close f])
                | None \<Rightarrow>
                    (if sint seekPos < sint offset then
                       (Inl (InvalidOffsetError fp offset),
                        es0 @ [Client_Open c fp, Reader_Seek f offset, Reader_Close f])
                     else (Inr f, es0 @ [Client_Open c fp, Reader_Seek f offset])))))"

subsection \<open>PutContent\<close>

text \<open>A call either returns or panics.\<close>

datatype 'a outcome = Return 'a | Panic string

text \<open>
  \<^verbatim>\<open>io.Copy(writer, bytes.NewReader(contents))\<close> is Go's standard library: the source
  is a \<^verbatim>\<open>bytes.Reader\<close>, so the copy is its \<^verbatim>\<open>WriteTo\<close>, which makes no call for
  empty contents and otherwise one \<^verbatim>\<open>Write\<close> of all of them; it panics when the
  writer reports more bytes than it was given, and reports \<^verbatim>\<open>io.ErrShortWrite\<close> when
  the writer took fewer without an error of its own.
\<close>

definition io_Copy ::
  "fileWriter \<Rightarrow> byte list \<Rightarrow> int \<times> error option \<Rightarrow>
   fileWriter \<times> (int64 \<times> error option) outcome \<times> effect list" where
  "io_Copy fw contents res =
     (if contents = [] then (fw, Return (0, None), [])
      else
        (case Write fw contents res of
           (fw', (m, err), es) \<Rightarrow>
             (if m > int (length contents) then
                (fw', Panic ''bytes.Reader.WriteTo: invalid Write count'', es)
              else if m \<noteq> int (length contents) \<and> err = None then
                (fw', Return (word_of_int m, Some ErrShortWrite), es)
              else (fw', Return (word_of_int m, err), es))))"

text \<open>
  The outcomes of the calls \<^verbatim>\<open>driver.PutContent\<close> may make: those of the writer it
  opens, of the one write of the copy, of the close and the remove inside
  \<^verbatim>\<open>Cancel\<close>, of the flush inside \<^verbatim>\<open>Commit\<close>, and of the flush and the close
  inside the deferred \<^verbatim>\<open>writer.Close()\<close>.
\<close>

record put_results =
  put_Writer :: writer_results
  put_Write :: "int \<times> error option"
  put_CancelClose :: "error option"
  put_CancelRemove :: "error option"
  put_CommitFlush :: "error option"
  put_DeferFlush :: "error option"
  put_DeferClose :: "error option"

text \<open>
  \<^verbatim>\<open>driver.PutContent\<close>. The deferred \<^verbatim>\<open>writer.Close()\<close> runs last on every path
  after the writer was opened, and what it returns is dropped, as is what
  \<^verbatim>\<open>writer.Cancel()\<close> returns. Besides the result, the model returns the transaction as
  the call leaves it (none when no writer was opened) and the effects.
\<close>

definition PutContent ::
  "pathpkg \<Rightarrow> driver \<Rightarrow> string \<Rightarrow> byte list \<Rightarrow> put_results \<Rightarrow>
   error option outcome \<times> fileWriter option \<times> effect list" where
  "PutContent P d subPath contents r =
     (case Writer P d subPath False (put_Writer r) of
        (Inl err, es0) \<Rightarrow> (Return (Some err), None, es0)
      | (Inr writer, es0) \<Rightarrow>
          (case io_Copy writer contents (put_Write r) of
             (w1, Panic msg, es1) \<Rightarrow>
               (case Close w1 (put_DeferFlush r) (put_DeferClose r) of
                  (w2, _, es2) \<Rightarrow> (Panic msg, Some w2, es0 @ es1 @ es2))
           | (w1, Return (_, Some err), es1) \<Rightarrow>
               (case Cancel w1 (put_CancelClose r) (put_CancelRemove r) of
                  (w2, _, es2) \<Rightarrow>
                    (case Close w2 (put_DeferFlush r) (put_DeferClose r) of
                       (w3, _, es3) \<Rightarrow> (Return (Some err), Some w3, es0 @ es1 @ es2 @ es3)))
           | (w1, Return (_, None), es1) \<Rightarrow>
               (case Commit w1 (put_CommitFlush r) of
                  (w2, res, es2) \<Rightarrow>
                    (case Close w2 (put_DeferFlush r) (put_DeferClose r) of
                       (w3, _, es3) \<Rightarrow> (Return res, Some w3, es0 @ es1 @ es2 @ es3)))))"

section \<open>Concrete values\<close>

text \<open>A transaction as \<open>newWriter\<close> makes it, an error of the client, a driver.\<close>

definition example_writer :: fileWriter where
  "example_writer =
     newWriter (Client ''namenode:8020'') ''/registry/blob''
       (CreateHandle (Client ''namenode:8020'') ''/registry/blob'') 0"

definition example_error :: error where
  "example_error = ClientError OtherKind 1"

text \<open>
  Go's \<^verbatim>\<open>path\<close> package, for the concrete values only, after its documentation.
  \<^verbatim>\<open>Clean\<close> replaces runs of slashes by one slash, drops every \<^verbatim>\<open>.\<close> element, drops
  every inner \<^verbatim>\<open>..\<close> element with the element before it, drops \<^verbatim>\<open>..\<close> elements at the
  start of a rooted path, and returns \<^verbatim>\<open>.\<close> for an empty result. \<^verbatim>\<open>Join\<close> puts a
  slash between its non-empty arguments and cleans the result, and is empty when both
  are. \<^verbatim>\<open>Dir\<close> cleans what stands before and including the last slash.
\<close>

fun split_slash :: "string \<Rightarrow> string \<Rightarrow> string list" where
  "split_slash acc [] = [rev acc]"
| "split_slash acc (c # cs) =
     (if c = CHR ''/'' then rev acc # split_slash [] cs else split_slash (c # acc) cs)"

fun clean_step :: "bool \<Rightarrow> string list \<Rightarrow> string \<Rightarrow> string list" where
  "clean_step rooted stack e =
     (if e = [] \<or> e = ''.'' then stack
      else if e = ''..'' then
        (case stack of
           [] \<Rightarrow> if rooted then [] else [e]
         | t # ts \<Rightarrow> if t = ''..'' then e # stack else ts)
      else e # stack)"

fun join_slash :: "string list \<Rightarrow> string" where
  "join_slash [] = []"
| "join_slash [x] = x"
| "join_slash (x # y # ys) = x @ ''/'' @ join_slash (y # ys)"

definition go_path_Clean :: "string \<Rightarrow> string" where
  "go_path_Clean p =
     (let rooted = (case p of [] \<Rightarrow> False | c # _ \<Rightarrow> c = CHR ''/'');
          body = join_slash (rev (foldl (clean_step rooted) [] (split_slash [] p)));
          out = (if rooted then CHR ''/'' # body else body)
      in if out = [] then ''.'' else out)"

definition go_path_Join :: "string \<Rightarrow> string \<Rightarrow> string" where
  "go_path_Join a b =
     (if a = [] \<and> b = [] then []
      else if a = [] then go_path_Clean b
      else go_path_Clean (a @ ''/'' @ b))"

definition go_path_Dir :: "string \<Rightarrow> string" where
  "go_path_Dir p = go_path_Clean (rev (dropWhile (\<lambda>c. c \<noteq> CHR ''/'') (rev p)))"

definition example_paths :: pathpkg where
  "example_paths = \<lparr>path_Join = go_path_Join, path_Dir = go_path_Dir\<rparr>"

definition example_driver :: driver where
  "example_driver =
     \<lparr>config = \<lparr>nameNode = ''namenode:8020'', rootPath = ''/registry'', maxClients = 8\<rparr>\<rparr>"

text \<open>
  Outcomes for the driver's operations: every call of \<^verbatim>\<open>Writer\<close> succeeds and the
  file exists with seven bytes; the five effects of the writer that \<^verbatim>\<open>PutContent\<close>
  opens under these outcomes; outcomes for \<^verbatim>\<open>Reader\<close> and \<^verbatim>\<open>PutContent\<close> in which
  the calls not named succeed.
\<close>

definition example_existing :: writer_results where
  "example_existing =
     \<lparr>res_New = None, res_MkdirAll = None,
      res_Stat = Inr \<lparr>info_Size = 7, info_IsDir = False, info_ModTime = 0\<rparr>,
      res_Remove = None, res_Append = None, res_Create = None\<rparr>"

definition example_read :: "error option \<Rightarrow> int64 \<times> error option \<Rightarrow> reader_results" where
  "example_read opened sought = \<lparr>rd_New = None, rd_Open = opened, rd_Seek = sought\<rparr>"

definition example_put ::
  "writer_results \<Rightarrow> int \<times> error option \<Rightarrow> error option \<Rightarrow> put_results" where
  "example_put opened written flushed =
     \<lparr>put_Writer = opened, put_Write = written,
      put_CancelClose = None, put_CancelRemove = None, put_CommitFlush = flushed,
      put_DeferFlush = None, put_DeferClose = None\<rparr>"

definition example_effects :: "effect list" where
  "example_effects =
     [Hdfs_New ''namenode:8020'', Client_MkdirAll (Client ''namenode:8020'') ''/registry'' 511,
      Client_Stat (Client ''namenode:8020'') ''/registry/blob'',
      Client_Remove (Client ''namenode:8020'') ''/registry/blob'',
      Client_Create (Client ''namenode:8020'') ''/registry/blob'']"

section \<open>Properties of the write transaction\<close>

lemma sint_add_count:
  fixes a :: int64
  assumes "0 \<le> n" "sint a + n < 2 ^ 63"
  shows "sint (a + word_of_int n) = sint a + n"
proof -
  have lo: "- (2 ^ 63) \<le> sint a" using sint_ge [of a] by simp
  have "a + word_of_int n = word_of_int (sint a + n)"
    by simp
  then have "sint (a + word_of_int n) = signed_take_bit 63 (sint a + n)"
    by (simp only: sint_sbintrunc') simp
  also have "\<dots> = sint a + n"
    using assms lo by (intro signed_take_bit_int_eq_self) auto
  finally show ?thesis .
qed

lemma example_writer_open: "is_Open example_writer"
  by (simp add: is_Open_def example_writer_def newWriter_def)

lemma example_writer_fields:
  "client example_writer = Client ''namenode:8020''"
  "file_w example_writer = CreateHandle (Client ''namenode:8020'') ''/registry/blob''"
  "path example_writer = ''/registry/blob''"
  "size64 example_writer = 0"
  "\<not> closed example_writer" "\<not> committed example_writer" "\<not> cancelled example_writer"
  by (simp_all add: example_writer_def newWriter_def)

text \<open>
  C3. \<^verbatim>\<open>Write\<close> is valid only while the transaction is open. With a flag set it fails
  with ``already closed'', ``already committed'' or ``already cancelled'' (the first
  flag set, in this order), reports zero bytes, makes no transport call and leaves the
  transaction, its counter included, as it was. In the open state it hands the bytes to
  the transport handle, adds the count the transport reports to the counter and returns
  that count with the transport's error. The counter is a 64-bit integer: while the sum
  stays below \<open>2 ^ 63\<close> its value grows by exactly the count. A write after a commit
  that succeeded fails with ``already committed'' and appends nothing.
\<close>

theorem Write_only_when_open:
  "(closed fw \<longrightarrow> Write fw p (n, err) = (fw, (0, Some (Errorf ''already closed'')), []))
   \<and> (\<not> closed fw \<and> committed fw \<longrightarrow>
        Write fw p (n, err) = (fw, (0, Some (Errorf ''already committed'')), []))
   \<and> (\<not> closed fw \<and> \<not> committed fw \<and> cancelled fw \<longrightarrow>
        Write fw p (n, err) = (fw, (0, Some (Errorf ''already cancelled'')), []))
   \<and> (is_Open fw \<longrightarrow>
        Write fw p (n, err) =
          (fw\<lparr>size64 := size64 fw + word_of_int n\<rparr>, (n, err),
           [File_Write (file_w fw) p, Set_size (size64 fw + word_of_int n)]))
   \<and> (is_Open fw \<and> 0 \<le> n \<and> sint (Size fw) + n < 2 ^ 63 \<longrightarrow>
        sint (Size (fst (Write fw p (n, err)))) = sint (Size fw) + n)
   \<and> (is_Open fw \<longrightarrow>
        Write (fst (Commit fw None)) p (n, err) =
          (fst (Commit fw None), (0, Some (Errorf ''already committed'')), []))"
proof -
  have guard1: "closed fw \<longrightarrow>
        Write fw p (n, err) = (fw, (0, Some (Errorf ''already closed'')), [])"
    by (simp add: Write_def)
  have guard2: "\<not> closed fw \<and> committed fw \<longrightarrow>
        Write fw p (n, err) = (fw, (0, Some (Errorf ''already committed'')), [])"
    by (simp add: Write_def)
  have guard3: "\<not> closed fw \<and> \<not> committed fw \<and> cancelled fw \<longrightarrow>
        Write fw p (n, err) = (fw, (0, Some (Errorf ''already cancelled'')), [])"
    by (simp add: Write_def)
  have opn: "is_Open fw \<longrightarrow>
        Write fw p (n, err) =
          (fw\<lparr>size64 := size64 fw + word_of_int n\<rparr>, (n, err),
           [File_Write (file_w fw) p, Set_size (size64 fw + word_of_int n)])"
    by (simp add: Write_def is_Open_def Let_def)
  have cnt: "is_Open fw \<and> 0 \<le> n \<and> sint (Size fw) + n < 2 ^ 63 \<longrightarrow>
        sint (Size (fst (Write fw p (n, err)))) = sint (Size fw) + n"
    using opn by (simp add: Size_def sint_add_count)
  have after: "is_Open fw \<longrightarrow>
        Write (fst (Commit fw None)) p (n, err) =
          (fst (Commit fw None), (0, Some (Errorf ''already committed'')), [])"
    by (simp add: Write_def Commit_def is_Open_def)
  from guard1 guard2 guard3 opn cnt after show ?thesis by blast
qed

theorem Write_only_when_open_witness:
  "Write (example_writer\<lparr>closed := True\<rparr>) [1, 2] (2, None) =
     (example_writer\<lparr>closed := True\<rparr>, (0, Some (Errorf ''already closed'')), [])
   \<and> Write (example_writer\<lparr>committed := True\<rparr>) [1, 2] (2, None) =
     (example_writer\<lparr>committed := True\<rparr>, (0, Some (Errorf ''already committed'')), [])
   \<and> Write (example_writer\<lparr>cancelled := True\<rparr>) [1, 2] (2, None) =
     (example_writer\<lparr>cancelled := True\<rparr>, (0, Some (Errorf ''already cancelled'')), [])
   \<and> is_Open example_writer
   \<and> Write example_writer [1, 2] (2, None) =
     (example_writer\<lparr>size64 := 2\<rparr>, (2, None),
      [File_Write (file_w example_writer) [1, 2], Set_size 2])
   \<and> sint (Size (fst (Write example_writer [1, 2] (2, None)))) = 2
   \<and> Write (fst (Commit example_writer None)) [1, 2] (2, None) =
     (fst (Commit example_writer None), (0, Some (Errorf ''already committed'')), [])"
proof -
  have c1: "closed (example_writer\<lparr>closed := True\<rparr>)" by simp
  have c2: "\<not> closed (example_writer\<lparr>committed := True\<rparr>) \<and>
            committed (example_writer\<lparr>committed := True\<rparr>)"
    by (simp add: example_writer_fields)
  have c3: "\<not> closed (example_writer\<lparr>cancelled := True\<rparr>) \<and>
            \<not> committed (example_writer\<lparr>cancelled := True\<rparr>) \<and>
            cancelled (example_writer\<lparr>cancelled := True\<rparr>)"
    by (simp add: example_writer_fields)
  have sz: "Size example_writer = 0"
    by (simp add: Size_def example_writer_fields)
  show ?thesis
    using Write_only_when_open [of "example_writer\<lparr>closed := True\<rparr>" "[1, 2]" 2 None]
      Write_only_when_open [of "example_writer\<lparr>committed := True\<rparr>" "[1, 2]" 2 None]
      Write_only_when_open [of "example_writer\<lparr>cancelled := True\<rparr>" "[1, 2]" 2 None]
      Write_only_when_open [of example_writer "[1, 2]" 2 None]
      c1 c2 c3 sz example_writer_open
    by (simp add: Size_def example_writer_fields)
qed

text \<open>
  C4. \<^verbatim>\<open>Commit\<close> on an open transaction whose flush succeeds flushes the transport
  handle, sets the committed flag and no other, and returns no error; whatever the flush
  returns, \<^verbatim>\<open>Commit\<close> does not close the handle. A second \<^verbatim>\<open>Commit\<close> fails with
  ``already committed'', a \<^verbatim>\<open>Commit\<close> after a \<^verbatim>\<open>Close\<close> that succeeded with
  ``already closed'', a \<^verbatim>\<open>Commit\<close> after a \<^verbatim>\<open>Cancel\<close> with ``already cancelled''; none
  of the three makes a transport call or changes the transaction.
\<close>

theorem Commit_flushes_once:
  "is_Open fw \<Longrightarrow>
     Commit fw None = (fw\<lparr>committed := True\<rparr>, None, [File_Flush (file_w fw), Set_committed])
   \<and> File_Close (file_w fw) \<notin> set (snd (snd (Commit fw flushRes)))
   \<and> \<not> closed (fst (Commit fw None)) \<and> \<not> cancelled (fst (Commit fw None))
   \<and> Commit (fst (Commit fw None)) flushRes =
       (fst (Commit fw None), Some (Errorf ''already committed''), [])
   \<and> Commit (fst (Close fw None None)) flushRes =
       (fst (Close fw None None), Some (Errorf ''already closed''), [])
   \<and> Commit (fst (Cancel fw closeRes removeRes)) flushRes =
       (fst (Cancel fw closeRes removeRes), Some (Errorf ''already cancelled''), [])"
  by (simp add: Commit_def Close_def Cancel_def is_Open_def split: option.split)

theorem Commit_flushes_once_witness:
  "is_Open example_writer
   \<and> Commit example_writer None =
       (example_writer\<lparr>committed := True\<rparr>, None,
        [File_Flush (CreateHandle (Client ''namenode:8020'') ''/registry/blob''), Set_committed])
   \<and> Commit (fst (Commit example_writer None)) None =
       (example_writer\<lparr>committed := True\<rparr>, Some (Errorf ''already committed''), [])
   \<and> Commit (fst (Close example_writer None None)) None =
       (example_writer\<lparr>closed := True\<rparr>, Some (Errorf ''already closed''), [])
   \<and> Commit (fst (Cancel example_writer None None)) None =
       (example_writer\<lparr>cancelled := True\<rparr>, Some (Errorf ''already cancelled''), [])"
proof -
  have h: "is_Open example_writer" by (rule example_writer_open)
  have cl: "fst (Close example_writer None None) = example_writer\<lparr>closed := True\<rparr>"
    by (simp add: Close_def example_writer_fields)
  have ca: "fst (Cancel example_writer None None) = example_writer\<lparr>cancelled := True\<rparr>"
    by (simp add: Cancel_def example_writer_fields)
  have cm: "fst (Commit example_writer None) = example_writer\<lparr>committed := True\<rparr>"
    by (simp add: Commit_def example_writer_fields)
  show ?thesis
    using Commit_flushes_once [OF h, of None None None] h cl ca cm
    by (simp add: example_writer_fields)
qed

text \<open>
  C5. \<^verbatim>\<open>Close\<close> on an open transaction whose transport calls succeed flushes the
  handle, then closes it, then sets the closed flag, which leaves the transaction closed
  and neither committed nor cancelled. A second \<^verbatim>\<open>Close\<close> fails with
  ``already closed'' and does nothing.
\<close>

theorem Close_flushes_then_closes:
  "is_Open fw \<Longrightarrow>
     Close fw None None =
       (fw\<lparr>closed := True\<rparr>, None,
        [File_Flush (file_w fw), File_Close (file_w fw), Set_closed])
   \<and> closed (fst (Close fw None None))
   \<and> \<not> committed (fst (Close fw None None))
   \<and> \<not> cancelled (fst (Close fw None None))
   \<and> Close (fst (Close fw None None)) flushRes closeRes =
       (fst (Close fw None None), Some (Errorf ''already closed''), [])"
  by (simp add: Close_def is_Open_def)

theorem Close_flushes_then_closes_witness:
  "is_Open example_writer
   \<and> Close example_writer None None =
       (example_writer\<lparr>closed := True\<rparr>, None,
        [File_Flush (CreateHandle (Client ''namenode:8020'') ''/registry/blob''),
         File_Close (CreateHandle (Client ''namenode:8020'') ''/registry/blob''), Set_closed])
   \<and> Close (fst (Close example_writer None None)) None None =
       (example_writer\<lparr>closed := True\<rparr>, Some (Errorf ''already closed''), [])"
proof -
  have h: "is_Open example_writer" by (rule example_writer_open)
  have cl: "fst (Close example_writer None None) = example_writer\<lparr>closed := True\<rparr>"
    by (simp add: Close_def example_writer_fields)
  show ?thesis
    using Close_flushes_then_closes [OF h, of None None] h cl
    by (simp add: example_writer_fields)
qed

text \<open>
  C9. When the flush fails in \<^verbatim>\<open>Close\<close>, when the flush succeeds and the transport
  close fails in \<^verbatim>\<open>Close\<close>, and when the flush fails in \<^verbatim>\<open>Commit\<close>, the transport's
  error is returned and no field of the transaction is assigned: an open transaction is
  still open.
\<close>

theorem failed_flush_or_close_keeps_flags:
  "is_Open fw \<Longrightarrow>
     Close fw (Some e) closeRes = (fw, Some e, [File_Flush (file_w fw)])
   \<and> Close fw None (Some e) = (fw, Some e, [File_Flush (file_w fw), File_Close (file_w fw)])
   \<and> Commit fw (Some e) = (fw, Some e, [File_Flush (file_w fw)])
   \<and> is_Open (fst (Close fw (Some e) closeRes))
   \<and> is_Open (fst (Close fw None (Some e)))
   \<and> is_Open (fst (Commit fw (Some e)))"
  by (simp add: Close_def Commit_def is_Open_def)

theorem failed_flush_or_close_keeps_flags_witness:
  "is_Open example_writer
   \<and> Close example_writer (Some example_error) None =
       (example_writer, Some example_error,
        [File_Flush (CreateHandle (Client ''namenode:8020'') ''/registry/blob'')])
   \<and> Close example_writer None (Some example_error) =
       (example_writer, Some example_error,
        [File_Flush (CreateHandle (Client ''namenode:8020'') ''/registry/blob''),
         File_Close (CreateHandle (Client ''namenode:8020'') ''/registry/blob'')])
   \<and> Commit example_writer (Some example_error) =
       (example_writer, Some example_error,
        [File_Flush (CreateHandle (Client ''namenode:8020'') ''/registry/blob'')])"
proof -
  have h: "is_Open example_writer" by (rule example_writer_open)
  show ?thesis
    using failed_flush_or_close_keeps_flags [OF h, of example_error None] h
    by (simp add: example_writer_fields)
qed




text \<open>
  C1 says that at most one of the flags committed and cancelled ever becomes true. On the
  code a \<^verbatim>\<open>Commit\<close> followed by a \<^verbatim>\<open>Cancel\<close>, both with transport calls that succeed,
  leaves an open transaction with both flags set: \<^verbatim>\<open>Cancel\<close> looks at the closed flag
  only.
\<close>

theorem Commit_then_Cancel_sets_both_flags:
  "is_Open example_writer
   \<and> committed (run_ops example_writer [Op_Commit None, Op_Cancel None None])
   \<and> cancelled (run_ops example_writer [Op_Commit None, Op_Cancel None None])"
  by (simp add: run_ops_def Commit_def Cancel_def example_writer_fields example_writer_open)

text \<open>
  C2 says that \<^verbatim>\<open>Cancel\<close> after a commit or after an earlier cancel fails and makes no
  transport call. On the code both calls get past the guard: each closes the transport
  handle, removes the target path and returns the result of the remove.
\<close>

theorem Cancel_after_Commit_or_Cancel_proceeds:
  "Cancel (fst (Commit example_writer None)) None None =
     (example_writer\<lparr>committed := True, cancelled := True\<rparr>, None,
      [Set_cancelled, File_Close (CreateHandle (Client ''namenode:8020'') ''/registry/blob''),
       Client_Remove (Client ''namenode:8020'') ''/registry/blob''])
   \<and> Cancel (fst (Cancel example_writer None None)) None None =
     (example_writer\<lparr>cancelled := True\<rparr>, None,
      [Set_cancelled, File_Close (CreateHandle (Client ''namenode:8020'') ''/registry/blob''),
       Client_Remove (Client ''namenode:8020'') ''/registry/blob''])"
  by (simp add: Commit_def Cancel_def example_writer_fields)

section \<open>Properties of the driver\<close>

lemma example_fullPath: "fullPath example_paths example_driver ''blob'' = ''/registry/blob''"
  by (simp add: fullPath_def example_paths_def example_driver_def go_path_Join_def
      go_path_Clean_def)

lemma example_Dir: "path_Dir example_paths ''/registry/blob'' = ''/registry''"
  by (simp add: example_paths_def go_path_Dir_def go_path_Clean_def)

lemma example_nameNode: "nameNode (config example_driver) = ''namenode:8020''"
  by (simp add: example_driver_def)



text \<open>
  The failures of \<^verbatim>\<open>Reader\<close>, branch by branch, once a client is at hand: the open
  reports that the path does not exist; the seek reports an error; the seek reports no
  error and a position below the requested offset.
\<close>

lemma Reader_failures:
  assumes "c = Client (nameNode (config d))" and "fp = fullPath P d subPath"
    and "rd_New r = None"
  shows
  "(rd_Open r = Some err \<and> IsNotExist err \<longrightarrow>
      Reader P d subPath offset r =
        (Inl (PathNotFoundError fp), [Hdfs_New (nameNode (config d)), Client_Open c fp]))
   \<and> (rd_Open r = None \<and> rd_Seek r = (seekPos, Some err) \<longrightarrow>
      Reader P d subPath offset r =
        (Inl err,
         [Hdfs_New (nameNode (config d)), Client_Open c fp,
          Reader_Seek (ReadHandle c fp) offset, Reader_Close (ReadHandle c fp)]))
   \<and> (rd_Open r = None \<and> rd_Seek r = (seekPos, None) \<and> sint seekPos < sint offset \<longrightarrow>
      Reader P d subPath offset r =
        (Inl (InvalidOffsetError fp offset),
         [Hdfs_New (nameNode (config d)), Client_Open c fp,
          Reader_Seek (ReadHandle c fp) offset, Reader_Close (ReadHandle c fp)]))"
  using assms by (simp add: Reader_def newHdfsClient_def Let_def)

text \<open>
  C8 says that \<^verbatim>\<open>Reader\<close> fails with the typed invalid-offset condition, not a generic
  error, when the offset is beyond what the backend could seek to. On the code a seek to
  offset 5 that stops at position 0 and reports an error makes \<^verbatim>\<open>Reader\<close> return that
  error as it is: the error of the seek is tested before the positions are compared,
  although the position is below the offset, which is the very test of the typed branch.
\<close>

theorem Reader_seek_error_is_generic:
  "sint (0 :: int64) < sint (5 :: int64)
   \<and> Reader example_paths example_driver ''blob'' 5 (example_read None (0, Some example_error)) =
     (Inl (ClientError OtherKind 1),
      [Hdfs_New ''namenode:8020'', Client_Open (Client ''namenode:8020'') ''/registry/blob'',
       Reader_Seek (ReadHandle (Client ''namenode:8020'') ''/registry/blob'') 5,
       Reader_Close (ReadHandle (Client ''namenode:8020'') ''/registry/blob'')])
   \<and> fst (Reader example_paths example_driver ''blob'' 5 (example_read None (0, Some example_error)))
     \<noteq> Inl (InvalidOffsetError ''/registry/blob'' 5)"
  by (simp add: Reader_def newHdfsClient_def example_read_def example_error_def Let_def
      example_nameNode example_fullPath)

lemma Writer_truncate_result:
  assumes "Writer P d subPath False r = (Inr w, es)"
  shows "w = newWriter (Client (nameNode (config d))) (fullPath P d subPath)
               (CreateHandle (Client (nameNode (config d))) (fullPath P d subPath)) 0"
  using assms
  by (auto simp: Writer_def newHdfsClient_def Writer_open_def Let_def
      split: option.splits sum.splits prod.splits)

lemma newWriter_fields:
  "client (newWriter c fp h sz) = c" "file_w (newWriter c fp h sz) = h"
  "path (newWriter c fp h sz) = fp" "size64 (newWriter c fp h sz) = sz"
  "\<not> closed (newWriter c fp h sz)" "\<not> committed (newWriter c fp h sz)"
  "\<not> cancelled (newWriter c fp h sz)"
  by (simp_all add: newWriter_def)

lemma io_Copy_new:
  assumes "\<not> closed w" "\<not> committed w" "\<not> cancelled w" "size64 w = 0"
  shows "io_Copy w contents (m, e) =
     (if contents = [] then (w, Return (0, None), [])
      else if m > int (length contents) then
        (w\<lparr>size64 := word_of_int m\<rparr>, Panic ''bytes.Reader.WriteTo: invalid Write count'',
         [File_Write (file_w w) contents, Set_size (word_of_int m)])
      else if m \<noteq> int (length contents) \<and> e = None then
        (w\<lparr>size64 := word_of_int m\<rparr>, Return (word_of_int m, Some ErrShortWrite),
         [File_Write (file_w w) contents, Set_size (word_of_int m)])
      else
        (w\<lparr>size64 := word_of_int m\<rparr>, Return (word_of_int m, e),
         [File_Write (file_w w) contents, Set_size (word_of_int m)]))"
  using assms by (simp add: io_Copy_def Write_def Let_def)

lemma PutContent_writer_fails:
  assumes "Writer P d subPath False (put_Writer r) = (Inl err, wes)"
  shows "PutContent P d subPath contents r = (Return (Some err), None, wes)"
  using assms by (simp add: PutContent_def)

lemma PutContent_copy_fails:
  assumes W: "Writer P d subPath False (put_Writer r) = (Inr w, wes)"
    and ne: "contents \<noteq> []"
    and le: "fst (put_Write r) \<le> int (length contents)"
    and bad: "snd (put_Write r) \<noteq> None \<or> fst (put_Write r) \<noteq> int (length contents)"
  shows "PutContent P d subPath contents r =
     (Return (Some (case snd (put_Write r) of Some x \<Rightarrow> x | None \<Rightarrow> ErrShortWrite)),
      Some (fst (Close (w\<lparr>size64 := word_of_int (fst (put_Write r)), cancelled := True\<rparr>)
                   (put_DeferFlush r) (put_DeferClose r))),
      wes @ [File_Write (file_w w) contents, Set_size (word_of_int (fst (put_Write r))),
             Set_cancelled, File_Close (file_w w), Client_Remove (client w) (path w)]
          @ snd (snd (Close (w\<lparr>size64 := word_of_int (fst (put_Write r)), cancelled := True\<rparr>)
                   (put_DeferFlush r) (put_DeferClose r))))"
proof -
  have w: "\<not> closed w" "\<not> committed w" "\<not> cancelled w" "size64 w = 0"
    using Writer_truncate_result [OF W] by (simp_all add: newWriter_fields)
  obtain m e where mw: "put_Write r = (m, e)" by (cases "put_Write r")
  show ?thesis
    using ne le bad w
    by (cases e) (simp_all add: PutContent_def W mw io_Copy_new [OF w] Cancel_def
        split: prod.split)
qed

lemma PutContent_copy_succeeds:
  assumes W: "Writer P d subPath False (put_Writer r) = (Inr w, wes)"
    and ok: "contents = [] \<or> put_Write r = (int (length contents), None)"
  shows "fst (PutContent P d subPath contents r) = Return (put_CommitFlush r)
     \<and> snd (snd (PutContent P d subPath contents r)) =
         wes @ (if contents = [] then []
                else [File_Write (file_w w) contents, Set_size (word_of_int (int (length contents)))])
             @ [File_Flush (file_w w)]
             @ (if put_CommitFlush r = None then [Set_committed] else [])
             @ snd (snd (Close (fst (Commit (fst (io_Copy w contents (put_Write r)))
                                  (put_CommitFlush r)))
                          (put_DeferFlush r) (put_DeferClose r)))"
proof -
  have w: "\<not> closed w" "\<not> committed w" "\<not> cancelled w" "size64 w = 0"
    using Writer_truncate_result [OF W] by (simp_all add: newWriter_fields)
  obtain m e where mw: "put_Write r = (m, e)" by (cases "put_Write r")
  show ?thesis
    using ok w
    by (cases "put_CommitFlush r")
      (auto simp: PutContent_def W mw io_Copy_new [OF w] Commit_def split: prod.split)
qed

lemma PutContent_nil_means_complete:
  assumes "fst (PutContent P d subPath contents r) = Return None"
  shows "(\<exists>w wes. Writer P d subPath False (put_Writer r) = (Inr w, wes))
     \<and> (contents = [] \<or> put_Write r = (int (length contents), None))
     \<and> put_CommitFlush r = None"
proof -
  obtain res wes where W: "Writer P d subPath False (put_Writer r) = (res, wes)"
    by (cases "Writer P d subPath False (put_Writer r)")
  show ?thesis
  proof (cases res)
    case (Inl err)
    with W assms show ?thesis by (simp add: PutContent_def)
  next
    case (Inr w)
    with W have W': "Writer P d subPath False (put_Writer r) = (Inr w, wes)" by simp
    have w: "\<not> closed w" "\<not> committed w" "\<not> cancelled w" "size64 w = 0"
      using Writer_truncate_result [OF W'] by (simp_all add: newWriter_fields)
    obtain m e where mw: "put_Write r = (m, e)" by (cases "put_Write r")
    show ?thesis
      using assms w
      by (cases "put_CommitFlush r"; cases e)
        (auto simp: PutContent_def W' mw io_Copy_new [OF w] Commit_def Cancel_def
          split: prod.splits if_splits)
  qed
qed

lemma Close_effects:
  "Client_Remove c p \<notin> set (snd (snd (Close fw flushRes closeRes)))"
  "Set_cancelled \<notin> set (snd (snd (Close fw flushRes closeRes)))"
  by (simp_all add: Close_def split: option.split)

lemma PutContent_success_no_remove:
  assumes W: "Writer P d subPath False (put_Writer r) = (Inr w, wes)"
    and ok: "contents = [] \<or> put_Write r = (int (length contents), None)"
  shows "Client_Remove (client w) (path w) \<notin> set (drop (length wes) (snd (snd (PutContent P d subPath contents r))))"
    and "Set_cancelled \<notin> set (drop (length wes) (snd (snd (PutContent P d subPath contents r))))"
  using PutContent_copy_succeeds [OF W ok, THEN conjunct2]
  by (simp_all add: Close_effects)

lemma example_Writer_truncate:
  "Writer example_paths example_driver ''blob'' False example_existing =
     (Inr example_writer, example_effects)"
  by (simp add: Writer_def newHdfsClient_def Writer_stat_def Writer_open_def Let_def
      example_existing_def example_writer_def example_effects_def
      example_nameNode example_fullPath example_Dir)

lemma example_Writer_fails:
  "Writer example_paths example_driver ''blob'' False
     (example_existing\<lparr>res_Create := Some example_error\<rparr>) =
     (Inl example_error, example_effects)"
  by (simp add: Writer_def newHdfsClient_def Writer_stat_def Writer_open_def Let_def
      example_existing_def example_effects_def
      example_nameNode example_fullPath example_Dir)

lemma example_put_fields:
  "put_Writer (example_put opened written flushed) = opened"
  "put_Write (example_put opened written flushed) = written"
  "put_CancelClose (example_put opened written flushed) = None"
  "put_CancelRemove (example_put opened written flushed) = None"
  "put_CommitFlush (example_put opened written flushed) = flushed"
  "put_DeferFlush (example_put opened written flushed) = None"
  "put_DeferClose (example_put opened written flushed) = None"
  by (simp_all add: example_put_def)

text \<open>
  C7, as amended. \<^verbatim>\<open>PutContent\<close> opens its writer in truncate mode (a create handle,
  counter zero) and returns the writer's error if there is one. When the copy fails (the
  one write returns an error or takes fewer bytes than given), it calls \<^verbatim>\<open>Cancel\<close>,
  which sets the cancelled flag, closes the handle and issues a remove of the target
  path, and then returns the error of the copy. When the copy succeeds it calls
  \<^verbatim>\<open>Commit\<close> and returns what \<^verbatim>\<open>Commit\<close> returned. It returns no error only when
  the transport took every byte without an error and the flush of the commit succeeded.
  Nothing is said of what is left at the path after a failure.
\<close>

theorem PutContent_cancels_or_commits:
  "(Writer P d subPath False (put_Writer r) = (Inl err, wes) \<longrightarrow>
      PutContent P d subPath contents r = (Return (Some err), None, wes))
   \<and> (Writer P d subPath False (put_Writer r) = (Inr w, wes) \<longrightarrow>
        w = newWriter (Client (nameNode (config d))) (fullPath P d subPath)
              (CreateHandle (Client (nameNode (config d))) (fullPath P d subPath)) 0
      \<and> (contents \<noteq> [] \<and> fst (put_Write r) \<le> int (length contents)
           \<and> (snd (put_Write r) \<noteq> None \<or> fst (put_Write r) \<noteq> int (length contents)) \<longrightarrow>
          PutContent P d subPath contents r =
            (Return (Some (case snd (put_Write r) of Some x \<Rightarrow> x | None \<Rightarrow> ErrShortWrite)),
             Some (fst (Close (w\<lparr>size64 := word_of_int (fst (put_Write r)), cancelled := True\<rparr>)
                          (put_DeferFlush r) (put_DeferClose r))),
             wes @ [File_Write (file_w w) contents, Set_size (word_of_int (fst (put_Write r))),
                    Set_cancelled, File_Close (file_w w), Client_Remove (client w) (path w)]
                 @ snd (snd (Close (w\<lparr>size64 := word_of_int (fst (put_Write r)),
                                      cancelled := True\<rparr>)
                          (put_DeferFlush r) (put_DeferClose r)))))
      \<and> (contents = [] \<or> put_Write r = (int (length contents), None) \<longrightarrow>
          fst (PutContent P d subPath contents r) = Return (put_CommitFlush r)
          \<and> snd (snd (PutContent P d subPath contents r)) =
              wes @ (if contents = [] then []
                     else [File_Write (file_w w) contents,
                           Set_size (word_of_int (int (length contents)))])
                  @ [File_Flush (file_w w)]
                  @ (if put_CommitFlush r = None then [Set_committed] else [])
                  @ snd (snd (Close (fst (Commit (fst (io_Copy w contents (put_Write r)))
                                       (put_CommitFlush r)))
                               (put_DeferFlush r) (put_DeferClose r)))
          \<and> Client_Remove (client w) (path w)
                \<notin> set (drop (length wes) (snd (snd (PutContent P d subPath contents r))))
          \<and> Set_cancelled
                \<notin> set (drop (length wes) (snd (snd (PutContent P d subPath contents r))))))
   \<and> (fst (PutContent P d subPath contents r) = Return None \<longrightarrow>
        (contents = [] \<or> put_Write r = (int (length contents), None))
        \<and> put_CommitFlush r = None)"
  apply (intro conjI impI)
  subgoal by (rule PutContent_writer_fails)
  subgoal by (rule Writer_truncate_result)
  subgoal using PutContent_copy_fails [of P d subPath r w wes contents] by simp
  subgoal using PutContent_copy_succeeds [of P d subPath r w wes contents] by simp
  subgoal using PutContent_copy_succeeds [of P d subPath r w wes contents] by simp
  subgoal using PutContent_success_no_remove(1) [of P d subPath r w wes contents] by simp
  subgoal using PutContent_success_no_remove(2) [of P d subPath r w wes contents] by simp
  subgoal using PutContent_nil_means_complete [of P d subPath contents r] by simp
  subgoal using PutContent_nil_means_complete [of P d subPath contents r] by simp
  done

theorem PutContent_cancels_or_commits_witness:
  "PutContent example_paths example_driver ''blob'' [1, 2, 3]
      (example_put (example_existing\<lparr>res_Create := Some example_error\<rparr>) (3, None) None) =
     (Return (Some example_error), None, example_effects)
   \<and> PutContent example_paths example_driver ''blob'' [1, 2, 3]
      (example_put example_existing (2, None) None) =
     (Return (Some ErrShortWrite),
      Some (example_writer\<lparr>size64 := 2, cancelled := True, closed := True\<rparr>),
      example_effects @
      [File_Write (CreateHandle (Client ''namenode:8020'') ''/registry/blob'') [1, 2, 3],
       Set_size 2, Set_cancelled,
       File_Close (CreateHandle (Client ''namenode:8020'') ''/registry/blob''),
       Client_Remove (Client ''namenode:8020'') ''/registry/blob'',
       File_Flush (CreateHandle (Client ''namenode:8020'') ''/registry/blob''),
       File_Close (CreateHandle (Client ''namenode:8020'') ''/registry/blob''), Set_closed])
   \<and> fst (PutContent example_paths example_driver ''blob'' [1, 2, 3]
      (example_put example_existing (3, None) (Some example_error))) =
     Return (Some example_error)
   \<and> Client_Remove (Client ''namenode:8020'') ''/registry/blob''
      \<notin> set (drop 5 (snd (snd (PutContent example_paths example_driver ''blob'' [1, 2, 3]
            (example_put example_existing (3, None) (Some example_error))))))
   \<and> fst (PutContent example_paths example_driver ''blob'' [1, 2, 3]
      (example_put example_existing (3, None) None)) = Return None"
proof -
  have W: "Writer example_paths example_driver ''blob'' False
             (put_Writer (example_put example_existing written flushed)) =
           (Inr example_writer, example_effects)" for written flushed
    by (simp add: example_put_fields example_Writer_truncate)
  have F: "Writer example_paths example_driver ''blob'' False
             (put_Writer (example_put (example_existing\<lparr>res_Create := Some example_error\<rparr>)
                (3, None) None)) =
           (Inl example_error, example_effects)"
    by (simp add: example_put_fields example_Writer_fails)
  have len: "length example_effects = 5" by (simp add: example_effects_def)
  note T1 = PutContent_cancels_or_commits [where P = example_paths and d = example_driver
      and subPath = "''blob''" and contents = "[1, 2, 3]" and err = example_error
      and wes = example_effects and w = example_writer
      and r = "example_put (example_existing\<lparr>res_Create := Some example_error\<rparr>) (3, None) None"]
  note T2 = PutContent_cancels_or_commits [where P = example_paths and d = example_driver
      and subPath = "''blob''" and contents = "[1, 2, 3]" and err = example_error
      and wes = example_effects and w = example_writer
      and r = "example_put example_existing (2, None) None"]
  note T3 = PutContent_cancels_or_commits [where P = example_paths and d = example_driver
      and subPath = "''blob''" and contents = "[1, 2, 3]" and err = example_error
      and wes = example_effects and w = example_writer
      and r = "example_put example_existing (3, None) (Some example_error)"]
  note T4 = PutContent_cancels_or_commits [where P = example_paths and d = example_driver
      and subPath = "''blob''" and contents = "[1, 2, 3]" and err = example_error
      and wes = example_effects and w = example_writer
      and r = "example_put example_existing (3, None) None"]
  have 1: "PutContent example_paths example_driver ''blob'' [1, 2, 3]
      (example_put (example_existing\<lparr>res_Create := Some example_error\<rparr>) (3, None) None) =
     (Return (Some example_error), None, example_effects)"
    using T1 F by simp
  have 2: "PutContent example_paths example_driver ''blob'' [1, 2, 3]
      (example_put example_existing (2, None) None) =
     (Return (Some ErrShortWrite),
      Some (example_writer\<lparr>size64 := 2, cancelled := True, closed := True\<rparr>),
      example_effects @
      [File_Write (CreateHandle (Client ''namenode:8020'') ''/registry/blob'') [1, 2, 3],
       Set_size 2, Set_cancelled,
       File_Close (CreateHandle (Client ''namenode:8020'') ''/registry/blob''),
       Client_Remove (Client ''namenode:8020'') ''/registry/blob'',
       File_Flush (CreateHandle (Client ''namenode:8020'') ''/registry/blob''),
       File_Close (CreateHandle (Client ''namenode:8020'') ''/registry/blob''), Set_closed])"
    using T2 W [of "(2, None)" None]
    by (simp add: example_put_fields example_writer_fields Close_def)
  have 3: "fst (PutContent example_paths example_driver ''blob'' [1, 2, 3]
      (example_put example_existing (3, None) (Some example_error))) =
     Return (Some example_error)
   \<and> Client_Remove (Client ''namenode:8020'') ''/registry/blob''
      \<notin> set (drop 5 (snd (snd (PutContent example_paths example_driver ''blob'' [1, 2, 3]
            (example_put example_existing (3, None) (Some example_error))))))"
    using T3 W [of "(3, None)" "Some example_error"] len
    by (simp add: example_put_fields example_writer_fields Close_effects)
  have 4: "fst (PutContent example_paths example_driver ''blob'' [1, 2, 3]
      (example_put example_existing (3, None) None)) = Return None"
    using T4 W [of "(3, None)" None]
    by (simp add: example_put_fields)
  from 1 2 3 4 show ?thesis by simp
qed

text \<open>
  C7 as stated fails, in two ways. Three bytes are put and the transport takes two: the
  remove inside \<^verbatim>\<open>Cancel\<close> fails, and \<^verbatim>\<open>PutContent\<close> returns exactly what it returns
  when the remove succeeds, the short-write error alone, so the two bytes stay at the path
  and the caller is not told. And when the transport takes all three bytes and the flush
  of \<^verbatim>\<open>Commit\<close> fails, \<^verbatim>\<open>PutContent\<close> fails without a cancel: after the create, the
  calls are the write, the failed flush and the deferred flush and close, with no remove
  of the path.
\<close>

theorem PutContent_failure_leaves_write:
  "put_CancelRemove
     ((example_put example_existing (2, None) None)\<lparr>put_CancelRemove := Some example_error\<rparr>)
     = Some example_error
   \<and> PutContent example_paths example_driver ''blob'' [1, 2, 3]
       ((example_put example_existing (2, None) None)\<lparr>put_CancelRemove := Some example_error\<rparr>)
     = PutContent example_paths example_driver ''blob'' [1, 2, 3]
         (example_put example_existing (2, None) None)
   \<and> fst (PutContent example_paths example_driver ''blob'' [1, 2, 3]
       ((example_put example_existing (2, None) None)\<lparr>put_CancelRemove := Some example_error\<rparr>))
     = Return (Some ErrShortWrite)
   \<and> PutContent example_paths example_driver ''blob'' [1, 2, 3]
       (example_put example_existing (3, None) (Some example_error))
     = (Return (Some example_error),
        Some (example_writer\<lparr>size64 := 3, closed := True\<rparr>),
        example_effects @
        [File_Write (CreateHandle (Client ''namenode:8020'') ''/registry/blob'') [1, 2, 3],
         Set_size 3,
         File_Flush (CreateHandle (Client ''namenode:8020'') ''/registry/blob''),
         File_Flush (CreateHandle (Client ''namenode:8020'') ''/registry/blob''),
         File_Close (CreateHandle (Client ''namenode:8020'') ''/registry/blob''), Set_closed])"
  by (simp add: PutContent_def example_put_def example_Writer_truncate io_Copy_def Write_def
      Cancel_def Commit_def Close_def Let_def example_writer_fields)

end
